theory Spec2Isabelle
  imports Main "HOL-Library.Word"
begin

unbundle bit_operations_syntax

section \<open>Data model of the x86-64 frame walker\<close>

text \<open>
  The embedding follows \<^verbatim>\<open>Source/PLCrashFrameWalker_x86_64.c\<close> (the variant with the
  image list and the stack scan, lines 42 to 341). Every operation below is translated
  from its definition in that file.
\<close>

text \<open>
  Modelled from the spec: the type declarations of \<^verbatim>\<open>PLCrashFrameWalker.h\<close>,
  \<^verbatim>\<open>PLCrashAsyncImage.h\<close> and the unwind provider's header, which the file includes and
  which are not among the sources. The types of this section have the fields and the
  constants that the file itself names. Registers, addresses and stack words
  (\<^verbatim>\<open>plframe_greg_t\<close>, \<^verbatim>\<open>uintptr_t\<close>, \<^verbatim>\<open>unw_word_t\<close>) are the machine words of the
  x86-64 target the file is compiled for: unsigned, 64 bits wide, with addition that
  wraps around at \<open>2 ^ 64\<close>.
\<close>

type_synonym plframe_greg_t = "64 word"

text \<open>
  The enumeration \<^verbatim>\<open>plframe_error_t\<close>: the codes this file names (success, no frame,
  bad frame, not supported, internal) and further codes that a provider status can be
  translated to.
\<close>

datatype plframe_error_t =
    PLFRAME_ESUCCESS
  | PLFRAME_EUNKNOWN
  | PLFRAME_ENOFRAME
  | PLFRAME_EBADFRAME
  | PLFRAME_ENOTSUP
  | PLFRAME_EINVAL
  | PLFRAME_INTERNAL
  | PLFRAME_EBADREG

text \<open>
  \<^verbatim>\<open>plframe_regnum_t\<close>: the register identifiers of the \<^verbatim>\<open>switch\<close> of
  \<^verbatim>\<open>plframe_get_reg\<close>, in its order. Every other value of the type reaches the
  \<^verbatim>\<open>default\<close> label; it is \<open>PLFRAME_X86_64_OTHER\<close> here.
\<close>

datatype plframe_regnum_t =
    PLFRAME_X86_64_RAX | PLFRAME_X86_64_RBX | PLFRAME_X86_64_RCX | PLFRAME_X86_64_RDX
  | PLFRAME_X86_64_RDI | PLFRAME_X86_64_RSI | PLFRAME_X86_64_RBP | PLFRAME_X86_64_RSP
  | PLFRAME_X86_64_R10 | PLFRAME_X86_64_R11 | PLFRAME_X86_64_R12 | PLFRAME_X86_64_R13
  | PLFRAME_X86_64_R14 | PLFRAME_X86_64_R15
  | PLFRAME_X86_64_RIP
  | PLFRAME_X86_64_RFLAGS | PLFRAME_X86_64_CS | PLFRAME_X86_64_FS | PLFRAME_X86_64_GS
  | PLFRAME_X86_64_OTHER int

text \<open>
  The register numbers of the unwind provider (\<^verbatim>\<open>unw_regnum_t\<close>) that the source uses,
  and the provider's success status.
\<close>

datatype unw_regnum_t =
    UNW_REG_IP
  | UNW_X86_64_RAX | UNW_X86_64_RBX | UNW_X86_64_RCX | UNW_X86_64_RDX
  | UNW_X86_64_RDI | UNW_X86_64_RSI | UNW_X86_64_RBP | UNW_X86_64_RSP
  | UNW_X86_64_R10 | UNW_X86_64_R11 | UNW_X86_64_R12 | UNW_X86_64_R13
  | UNW_X86_64_R14 | UNW_X86_64_R15

definition UNW_ESUCCESS :: int where
  "UNW_ESUCCESS = 0"

text \<open>
  The general-purpose part of the thread-state snapshot, \<^verbatim>\<open>uap->uc_mcontext->__ss\<close> of
  type \<^verbatim>\<open>x86_thread_state64_t\<close>. The
  field \<^verbatim>\<open>__rax\<close> is \<open>ss_rax\<close>, and so on. The file reads \<^verbatim>\<open>__rsp\<close>, \<^verbatim>\<open>__rip\<close>,
  \<^verbatim>\<open>__rflags\<close>, \<^verbatim>\<open>__cs\<close>, \<^verbatim>\<open>__fs\<close> and \<^verbatim>\<open>__gs\<close> and writes \<^verbatim>\<open>__rip\<close> of a copy.
\<close>

record x86_thread_state64_t =
  ss_rax :: plframe_greg_t
  ss_rbx :: plframe_greg_t
  ss_rcx :: plframe_greg_t
  ss_rdx :: plframe_greg_t
  ss_rdi :: plframe_greg_t
  ss_rsi :: plframe_greg_t
  ss_rbp :: plframe_greg_t
  ss_rsp :: plframe_greg_t
  ss_r8 :: plframe_greg_t
  ss_r9 :: plframe_greg_t
  ss_r10 :: plframe_greg_t
  ss_r11 :: plframe_greg_t
  ss_r12 :: plframe_greg_t
  ss_r13 :: plframe_greg_t
  ss_r14 :: plframe_greg_t
  ss_r15 :: plframe_greg_t
  ss_rip :: plframe_greg_t
  ss_rflags :: plframe_greg_t
  ss_cs :: plframe_greg_t
  ss_fs :: plframe_greg_t
  ss_gs :: plframe_greg_t

text \<open>
  The image list. One entry has a base address and a text size,
  \<^verbatim>\<open>entry->image.header\<close> and \<^verbatim>\<open>entry->image.textsize\<close>. The list the cursor borrows
  is the sequence of entries that \<^verbatim>\<open>plcrash_async_image_list_next\<close> yields, first to
  last; the two \<^verbatim>\<open>plcrash_async_image_list_set_reading\<close> calls mark the list as being
  read and change nothing the walker sees.
\<close>

record plcrash_async_image_t =
  header :: "64 word"
  textsize :: "64 word"

text \<open>
  \<^verbatim>\<open>plframe_cursor_t\<close>, with the fields this file reads and writes. \<open>uap\<close> stands for the
  snapshot the cursor points to, \<open>fp0\<close> for \<^verbatim>\<open>fp[0]\<close>, and \<open>'u\<close> is the state of the
  unwind provider (\<^verbatim>\<open>unw_cursor_t\<close>), which the walker never inspects. \<open>nframe\<close> is a C
  \<^verbatim>\<open>int\<close>: a 32-bit word read as two's complement (\<open>sint\<close>), on which
  \<^verbatim>\<open>++cursor->nframe\<close> wraps around, from \<open>2147483647\<close> to \<open>-2147483648\<close>. The sentinel
  \<open>-1\<close> is the word \<open>0xFFFFFFFF\<close>.
\<close>

record 'u plframe_cursor_t =
  uap :: x86_thread_state64_t
  nframe :: "32 word"
  fp0 :: "64 word"
  image_list :: "plcrash_async_image_t list"
  endstack :: bool
  last_unwind_address :: "64 word"
  last_stack_pointer :: plframe_greg_t
  last_valid_frame :: plframe_greg_t
  unwcrsr :: 'u

text \<open>
  The collaborators the file calls and does not define, taken as parameters. The unwind provider: \<^verbatim>\<open>unw_init_local\<close> builds a provider state from a
  thread state, \<^verbatim>\<open>unw_step\<close> returns its status (negative: error, zero: done, positive:
  more frames) and the stepped state, \<^verbatim>\<open>unw_get_reg\<close> returns its status and the word
  it stores through its out pointer. The walker ignores that status at lines 203, 213 and
  259 and uses the word, so the provider is taken to store a word on every call.
  \<^verbatim>\<open>plframe_read_addr\<close> is the fault-tolerant read of one word of the target's memory
  at an address, \<open>None\<close> when it does not return \<^verbatim>\<open>KERN_SUCCESS\<close>.
  \<^verbatim>\<open>plframe_error_from_unwerror\<close> translates a provider status.
\<close>

record 'u plframe_env =
  unw_init_local :: "x86_thread_state64_t \<Rightarrow> int \<times> 'u"
  unw_step :: "'u \<Rightarrow> int \<times> 'u"
  unw_get_reg :: "'u \<Rightarrow> unw_regnum_t \<Rightarrow> int \<times> 64 word"
  plframe_read_addr :: "64 word \<Rightarrow> 64 word option"
  plframe_error_from_unwerror :: "int \<Rightarrow> plframe_error_t"

section \<open>The operations\<close>

subsection \<open>Initialisation\<close>

definition plframe_cursor_init ::
  "'u plframe_env \<Rightarrow> x86_thread_state64_t \<Rightarrow> plcrash_async_image_t list
     \<Rightarrow> plframe_error_t \<times> 'u plframe_cursor_t" where
  "plframe_cursor_init env uap_arg image_list_arg =
     (let (result, u) = unw_init_local env uap_arg
      in (plframe_error_from_unwerror env result,
          \<lparr> uap = uap_arg,
            nframe = - 1,
            fp0 = 0,
            image_list = image_list_arg,
            endstack = False,
            last_unwind_address = 0,
            last_stack_pointer = ss_rsp uap_arg,
            last_valid_frame = ss_rip uap_arg,
            unwcrsr = u \<rparr>))"

subsection \<open>Address validator\<close>

text \<open>
  The \<^verbatim>\<open>while\<close> loop over the image list: the first entry whose range holds the address
  ends it with \<open>True\<close>, the end of the list with \<open>False\<close>. The sum
  \<^verbatim>\<open>header + textsize\<close> is a 64-bit sum.
\<close>

fun image_list_loop :: "plcrash_async_image_t list \<Rightarrow> 64 word \<Rightarrow> bool" where
  "image_list_loop [] address = False"
| "image_list_loop (entry # rest) address =
     (if header entry \<le> address \<and> address \<le> header entry + textsize entry then True
      else image_list_loop rest address)"

definition plframe_cursor_address_looks_valid ::
  "'u plframe_cursor_t \<Rightarrow> 64 word \<Rightarrow> bool" where
  "plframe_cursor_address_looks_valid cursor address =
     (if address AND 0xFFFFFFFF00000000 = 0 then False
      else image_list_loop (image_list cursor) address)"

subsection \<open>Stack scanner\<close>

text \<open>
  The \<^verbatim>\<open>for\<close> loop of \<^verbatim>\<open>plframe_cursor_scan_stack\<close>, entered at its test with the loop
  variable \<open>loc\<close>. Both the bound \<^verbatim>\<open>last_stack_pointer + search_space * 8\<close> and the
  increment wrap around, so the loop need not end: the result \<open>None\<close> is a scan that
  never returns.
\<close>

definition search_space :: "64 word" where
  "search_space = 500"

partial_function (option) scan_stack_loop ::
  "'u plframe_env \<Rightarrow> 'u plframe_cursor_t \<Rightarrow> plframe_greg_t
     \<Rightarrow> (plframe_error_t \<times> 'u plframe_cursor_t) option" where
  "scan_stack_loop env cursor loc =
     (if loc \<le> last_stack_pointer cursor + search_space * 8 then
        (case plframe_read_addr env loc of
           None \<Rightarrow> Some (PLFRAME_ENOFRAME, cursor)
         | Some data \<Rightarrow>
             if plframe_cursor_address_looks_valid cursor data then
               Some (PLFRAME_ESUCCESS,
                     cursor\<lparr>last_stack_pointer := loc + 8, last_valid_frame := data\<rparr>)
             else scan_stack_loop env cursor (loc + 8))
      else Some (PLFRAME_ENOFRAME, cursor))"

declare scan_stack_loop.simps [code]

definition plframe_cursor_scan_stack ::
  "'u plframe_env \<Rightarrow> 'u plframe_cursor_t
     \<Rightarrow> (plframe_error_t \<times> 'u plframe_cursor_t) option" where
  "plframe_cursor_scan_stack env cursor =
     scan_stack_loop env cursor (last_stack_pointer cursor)"

subsection \<open>Advancing the cursor\<close>

text \<open>
  Lines 259 and 263: the provider's program counter becomes \<open>last_valid_frame\<close>, and the
  call returns success.
\<close>

definition record_valid_frame ::
  "'u plframe_env \<Rightarrow> 'u plframe_cursor_t
     \<Rightarrow> (plframe_error_t \<times> 'u plframe_cursor_t) option" where
  "record_valid_frame env cursor =
     Some (PLFRAME_ESUCCESS,
           cursor\<lparr>last_valid_frame := snd (unw_get_reg env (unwcrsr cursor) UNW_REG_IP)\<rparr>)"

text \<open>
  Lines 233 to 251: what the cursor does with the scanner's result. The re-seeded thread
  state is a copy; the cursor's own snapshot stays as it is.
\<close>

definition after_scan ::
  "'u plframe_env \<Rightarrow> plframe_error_t \<times> 'u plframe_cursor_t
     \<Rightarrow> (plframe_error_t \<times> 'u plframe_cursor_t) option" where
  "after_scan env scanned =
     (let (result, cursor) = scanned
      in if result = PLFRAME_ENOFRAME then record_valid_frame env (cursor\<lparr>endstack := True\<rparr>)
         else if result \<noteq> PLFRAME_ESUCCESS then Some (result, cursor)
         else
           (let state = (uap cursor)\<lparr>ss_rip := last_valid_frame cursor\<rparr>;
                (unwr, u) = unw_init_local env state
            in Some (plframe_error_from_unwerror env unwr, cursor\<lparr>unwcrsr := u\<rparr>)))"

definition plframe_cursor_next ::
  "'u plframe_env \<Rightarrow> 'u plframe_cursor_t
     \<Rightarrow> (plframe_error_t \<times> 'u plframe_cursor_t) option" where
  "plframe_cursor_next env cursor =
     (if nframe cursor = - 1 then
        Some (PLFRAME_ESUCCESS, cursor\<lparr>nframe := nframe cursor + 1\<rparr>)
      else if endstack cursor then Some (PLFRAME_ENOFRAME, cursor)
      else
        (let c1 = cursor\<lparr>last_unwind_address :=
                           snd (unw_get_reg env (unwcrsr cursor) UNW_REG_IP)\<rparr>;
             (unwr, u) = unw_step env (unwcrsr c1);
             c2 = c1\<lparr>unwcrsr := u, nframe := nframe c1 + 1\<rparr>
         in if unwr < 0 then Some (plframe_error_from_unwerror env unwr, c2)
            else
              (let reg = snd (unw_get_reg env (unwcrsr c2) UNW_REG_IP)
               in if unwr = 0 then
                    (if last_unwind_address c2 = reg then
                       (case plframe_cursor_scan_stack env c2 of
                          None \<Rightarrow> None
                        | Some scanned \<Rightarrow> after_scan env scanned)
                     else record_valid_frame env (c2\<lparr>endstack := True\<rparr>))
                  else record_valid_frame env c2)))"

subsection \<open>Register access\<close>

text \<open>
  The result is the returned code and the word stored through \<^verbatim>\<open>reg\<close>, \<open>None\<close> when
  nothing is stored.
\<close>

definition get_unw_reg ::
  "'u plframe_env \<Rightarrow> 'u plframe_cursor_t \<Rightarrow> unw_regnum_t
     \<Rightarrow> plframe_error_t \<times> plframe_greg_t option" where
  "get_unw_reg env cursor unwreg =
     (let (result, regval) = unw_get_reg env (unwcrsr cursor) unwreg
      in if result = UNW_ESUCCESS then (PLFRAME_ESUCCESS, Some regval)
         else (plframe_error_from_unwerror env result, None))"

definition plframe_get_reg ::
  "'u plframe_env \<Rightarrow> 'u plframe_cursor_t \<Rightarrow> plframe_regnum_t
     \<Rightarrow> plframe_error_t \<times> plframe_greg_t option" where
  "plframe_get_reg env cursor regnum =
     (if nframe cursor \<noteq> 0 then
        (if regnum = PLFRAME_X86_64_RIP then (PLFRAME_ESUCCESS, Some (last_valid_frame cursor))
         else (PLFRAME_ENOTSUP, None))
      else
        (case regnum of
           PLFRAME_X86_64_RAX \<Rightarrow> get_unw_reg env cursor UNW_X86_64_RAX
         | PLFRAME_X86_64_RBX \<Rightarrow> get_unw_reg env cursor UNW_X86_64_RBX
         | PLFRAME_X86_64_RCX \<Rightarrow> get_unw_reg env cursor UNW_X86_64_RCX
         | PLFRAME_X86_64_RDX \<Rightarrow> get_unw_reg env cursor UNW_X86_64_RDX
         | PLFRAME_X86_64_RDI \<Rightarrow> get_unw_reg env cursor UNW_X86_64_RDI
         | PLFRAME_X86_64_RSI \<Rightarrow> get_unw_reg env cursor UNW_X86_64_RSI
         | PLFRAME_X86_64_RBP \<Rightarrow> get_unw_reg env cursor UNW_X86_64_RBP
         | PLFRAME_X86_64_RSP \<Rightarrow> get_unw_reg env cursor UNW_X86_64_RSP
         | PLFRAME_X86_64_R10 \<Rightarrow> get_unw_reg env cursor UNW_X86_64_R10
         | PLFRAME_X86_64_R11 \<Rightarrow> get_unw_reg env cursor UNW_X86_64_R11
         | PLFRAME_X86_64_R12 \<Rightarrow> get_unw_reg env cursor UNW_X86_64_R12
         | PLFRAME_X86_64_R13 \<Rightarrow> get_unw_reg env cursor UNW_X86_64_R13
         | PLFRAME_X86_64_R14 \<Rightarrow> get_unw_reg env cursor UNW_X86_64_R14
         | PLFRAME_X86_64_R15 \<Rightarrow> get_unw_reg env cursor UNW_X86_64_R15
         | PLFRAME_X86_64_RIP \<Rightarrow> get_unw_reg env cursor UNW_REG_IP
         | PLFRAME_X86_64_RFLAGS \<Rightarrow> (PLFRAME_ESUCCESS, Some (ss_rflags (uap cursor)))
         | PLFRAME_X86_64_CS \<Rightarrow> (PLFRAME_ESUCCESS, Some (ss_cs (uap cursor)))
         | PLFRAME_X86_64_FS \<Rightarrow> (PLFRAME_ESUCCESS, Some (ss_fs (uap cursor)))
         | PLFRAME_X86_64_GS \<Rightarrow> (PLFRAME_ESUCCESS, Some (ss_gs (uap cursor)))
         | PLFRAME_X86_64_OTHER n \<Rightarrow> (PLFRAME_ENOTSUP, None)))"

subsection \<open>A walk\<close>


section \<open>Example inputs\<close>

text \<open>
  A thread state, two image lists (one image of text at \<open>0x100000000\<close>; one image that
  spans the whole address space) and an unwind provider that plays a script: its state is
  the current program counter and the steps still to come, each a status and the program
  counter after it. With the script used up it reports done and stays where it is.
\<close>

definition example_uap :: x86_thread_state64_t where
  "example_uap =
     \<lparr> ss_rax = 0, ss_rbx = 0, ss_rcx = 0, ss_rdx = 0, ss_rdi = 0, ss_rsi = 0,
       ss_rbp = 0x7FFF5FBFF010, ss_rsp = 0x7FFF5FBFF000,
       ss_r8 = 0, ss_r9 = 0, ss_r10 = 0, ss_r11 = 0, ss_r12 = 0, ss_r13 = 0,
       ss_r14 = 0, ss_r15 = 0,
       ss_rip = 0x100001000, ss_rflags = 0x246, ss_cs = 0x2B, ss_fs = 0, ss_gs = 0 \<rparr>"

definition example_images :: "plcrash_async_image_t list" where
  "example_images = [\<lparr> header = 0x100000000, textsize = 0x2000 \<rparr>]"

definition whole_space_images :: "plcrash_async_image_t list" where
  "whole_space_images = [\<lparr> header = 0, textsize = 0xFFFFFFFFFFFFFFFF \<rparr>]"

type_synonym script_state = "64 word \<times> (int \<times> 64 word) list"

definition script_step :: "script_state \<Rightarrow> int \<times> script_state" where
  "script_step u =
     (case snd u of
        [] \<Rightarrow> (0, u)
      | next_step # rest \<Rightarrow> (fst next_step, (snd next_step, rest)))"

definition script_env ::
  "(int \<times> 64 word) list \<Rightarrow> (64 word \<Rightarrow> 64 word option) \<Rightarrow> script_state plframe_env" where
  "script_env script mem =
     \<lparr> unw_init_local = (\<lambda>ss. (0, (ss_rip ss, script))),
       unw_step = script_step,
       unw_get_reg = (\<lambda>u r. if r = UNW_REG_IP then (0, fst u) else (- 1, 0)),
       plframe_read_addr = mem,
       plframe_error_from_unwerror =
         (\<lambda>e. if e = 0 then PLFRAME_ESUCCESS else PLFRAME_EUNKNOWN) \<rparr>"

text \<open>
  A memory where no address can be read, and the cursor that initialisation builds over
  \<open>example_uap\<close> with a given stack pointer, for a provider with a given script.
\<close>

definition unreadable :: "64 word \<Rightarrow> 64 word option" where
  "unreadable a = None"

definition example_cursor ::
  "(int \<times> 64 word) list \<Rightarrow> 64 word \<Rightarrow> plcrash_async_image_t list
     \<Rightarrow> script_state plframe_cursor_t" where
  "example_cursor script sp images =
     snd (plframe_cursor_init (script_env script unreadable)
            (example_uap\<lparr>ss_rsp := sp\<rparr>) images)"

text \<open>
  Further memories: one where every address reads the same word, one where every address
  reads zero but for a single word.
\<close>

definition all_words :: "64 word \<Rightarrow> 64 word \<Rightarrow> 64 word option" where
  "all_words w a = Some w"

definition zero_but :: "64 word \<Rightarrow> 64 word \<Rightarrow> 64 word \<Rightarrow> 64 word option" where
  "zero_but at w a = Some (if a = at then w else 0)"



lemma example_cursor_fields:
  "uap (example_cursor script sp images) = example_uap\<lparr>ss_rsp := sp\<rparr>"
  "unwcrsr (example_cursor script sp images) = (0x100001000, script)"
  "last_unwind_address (example_cursor script sp images) = 0"
  "image_list (example_cursor script sp images) = images"
  "last_stack_pointer (example_cursor script sp images) = sp"
  "last_valid_frame (example_cursor script sp images) = 0x100001000"
  "nframe (example_cursor script sp images) = - 1"
  "endstack (example_cursor script sp images) = False"
  by (simp_all add: example_cursor_def plframe_cursor_init_def script_env_def example_uap_def)

section \<open>Properties of the address validator\<close>

lemma high_mask_eq: "(0xFFFFFFFF00000000 :: 64 word) = NOT (mask 32)"
  by (simp add: mask_eq_exp_minus_1)

lemma and_not_mask_zero_iff: "((a::64 word) AND NOT (mask 32) = 0) = (a AND mask 32 = a)"
  by (auto simp add: bit_eq_iff bit_simps)

lemma high_bits_zero_iff_less: "((a::64 word) AND 0xFFFFFFFF00000000 = 0) = (a < 2 ^ 32)"
  by (simp add: high_mask_eq and_not_mask_zero_iff mask_eq_iff_w2p word_size)

lemma drop_bit_32_zero_iff_less: "(drop_bit 32 (a::64 word) = 0) = (a < 2 ^ 32)"
proof -
  have "(drop_bit 32 a = 0) = (unat (drop_bit 32 a) = 0)"
    by (simp add: unat_eq_0)
  also have "\<dots> = (unat a div 2 ^ 32 = 0)"
    by (simp add: unat_drop_bit_eq drop_bit_eq_div unat_div)
  also have "\<dots> = (unat a < 2 ^ 32)"
    by (simp add: div_eq_0_iff)
  also have "\<dots> = (a < 2 ^ 32)"
    by (simp add: word_less_nat_alt)
  finally show ?thesis .
qed

lemma image_list_loop_iff:
  "image_list_loop images address =
     (\<exists>entry\<in>set images. header entry \<le> address \<and> address \<le> header entry + textsize entry)"
  by (induction images) auto

lemma looks_valid_iff:
  "plframe_cursor_address_looks_valid cursor address =
     (\<not> address < 2 ^ 32 \<and>
      (\<exists>entry\<in>set (image_list cursor).
          header entry \<le> address \<and> address \<le> header entry + textsize entry))"
  by (simp add: plframe_cursor_address_looks_valid_def high_bits_zero_iff_less
      image_list_loop_iff)

text \<open>
  C6. An address whose upper 32 bits are zero (\<open>drop_bit 32 address = 0\<close>) is rejected
  whatever the image list holds, so the list has no part in the answer. Any other address
  is accepted exactly when some image of the list has
  \<open>header \<le> address \<le> header + textsize\<close>, the sum being the 64-bit sum of the code.
\<close>

theorem address_looks_valid_spec:
  "(drop_bit 32 address = 0 \<longrightarrow>
      (\<forall>images. \<not> plframe_cursor_address_looks_valid (cursor\<lparr>image_list := images\<rparr>) address)) \<and>
   (drop_bit 32 address \<noteq> 0 \<longrightarrow>
      plframe_cursor_address_looks_valid cursor address =
        (\<exists>entry\<in>set (image_list cursor).
            header entry \<le> address \<and> address \<le> header entry + textsize entry))"
  by (simp add: looks_valid_iff drop_bit_32_zero_iff_less)

theorem address_looks_valid_spec_witness:
  "drop_bit 32 (0x1000 :: 64 word) = 0 \<and>
   (\<exists>entry\<in>set whole_space_images.
       header entry \<le> 0x1000 \<and> 0x1000 \<le> header entry + textsize entry) \<and>
   \<not> plframe_cursor_address_looks_valid
        ((example_cursor [] 0x7FFF5FBFF000 example_images)\<lparr>image_list := whole_space_images\<rparr>)
        0x1000 \<and>
   drop_bit 32 (0x100001000 :: 64 word) \<noteq> 0 \<and>
   plframe_cursor_address_looks_valid (example_cursor [] 0x7FFF5FBFF000 example_images) 0x100001000 \<and>
   \<not> plframe_cursor_address_looks_valid (example_cursor [] 0x7FFF5FBFF000 example_images) 0x100002001"
  using address_looks_valid_spec [of "0x1000" "example_cursor [] 0x7FFF5FBFF000 example_images"]
    address_looks_valid_spec [of "0x100001000" "example_cursor [] 0x7FFF5FBFF000 example_images"]
    address_looks_valid_spec [of "0x100002001" "example_cursor [] 0x7FFF5FBFF000 example_images"]
  by (simp add: drop_bit_32_zero_iff_less example_cursor_fields example_images_def
      whole_space_images_def)

section \<open>Properties of the stack scanner\<close>

subsection \<open>What a returning scan returns\<close>

lemma scan_stack_loop_result:
  assumes "scan_stack_loop env cursor loc = Some y"
  shows "y = (PLFRAME_ENOFRAME, cursor) \<or>
         (\<exists>a data. y = (PLFRAME_ESUCCESS,
                         cursor\<lparr>last_stack_pointer := a + 8, last_valid_frame := data\<rparr>) \<and>
                    plframe_read_addr env a = Some data \<and>
                    plframe_cursor_address_looks_valid cursor data)"
proof (induction rule: scan_stack_loop.raw_induct [OF _ assms])
  case (1 f env cursor loc y)
  show ?case
  proof (cases "loc \<le> last_stack_pointer cursor + search_space * 8")
    case False
    with 1(2) show ?thesis by simp
  next
    case True
    show ?thesis
    proof (cases "plframe_read_addr env loc")
      case None
      with True 1(2) show ?thesis by simp
    next
      case (Some data)
      show ?thesis
      proof (cases "plframe_cursor_address_looks_valid cursor data")
        case True
        with \<open>loc \<le> _\<close> Some 1(2) show ?thesis by auto
      next
        case False
        with \<open>loc \<le> _\<close> Some 1(2) have "f env cursor (loc + 8) = Some y" by simp
        then show ?thesis by (rule 1(1))
      qed
    qed
  qed
qed


lemma scan_stack_result:
  assumes "plframe_cursor_scan_stack env cursor = Some (result, cursor')"
  shows "(result = PLFRAME_ENOFRAME \<and> cursor' = cursor) \<or>
         (result = PLFRAME_ESUCCESS \<and>
          (\<exists>a data. cursor' = cursor\<lparr>last_stack_pointer := a + 8, last_valid_frame := data\<rparr> \<and>
                     plframe_read_addr env a = Some data \<and>
                     plframe_cursor_address_looks_valid cursor data))"
  using scan_stack_loop_result [OF assms [unfolded plframe_cursor_scan_stack_def]]
  by auto

subsection \<open>The window of the scan\<close>

text \<open>
  With \<open>last_stack_pointer + 4000\<close> below \<open>2 ^ 64\<close> the words at offsets \<open>0, 8, \<dots>, 4000\<close>
  pass the loop test: 501 of them. With \<open>last_stack_pointer + 4008\<close> below \<open>2 ^ 64\<close> the
  next one fails it. When the bound itself wraps around, the first test already fails.
\<close>

lemma window_le:
  fixes sp :: "64 word"
  assumes "unat sp + 4000 < 2 ^ 64" "j \<le> 500"
  shows "sp + 8 * of_nat j \<le> sp + search_space * 8"
  using assms by (simp add: search_space_def word_le_nat_alt unat_word_ariths unat_of_nat)

lemma window_end:
  fixes sp :: "64 word"
  assumes "unat sp + 4008 < 2 ^ 64"
  shows "\<not> sp + 8 * of_nat (501::nat) \<le> sp + search_space * 8"
  using assms by (simp add: search_space_def word_le_nat_alt unat_word_ariths unat_of_nat)

lemma window_wrapped:
  fixes sp :: "64 word"
  assumes "2 ^ 64 \<le> unat sp + 4000"
  shows "\<not> sp \<le> sp + search_space * 8"
proof -
  have lt: "unat sp < 2 ^ 64"
    using unsigned_less [of sp] by simp
  have "(unat sp + 4000) mod 2 ^ 64 = (unat sp + 4000 - 2 ^ 64) mod 2 ^ 64"
    using assms by (rule le_mod_geq)
  also have "\<dots> = unat sp + 4000 - 2 ^ 64"
    using lt by simp
  finally have "(unat sp + 4000) mod 2 ^ 64 < unat sp"
    using assms lt by simp
  then show ?thesis
    by (simp add: search_space_def word_le_nat_alt unat_word_ariths)
qed

lemma window_distinct:
  fixes sp :: "64 word"
  assumes "i < 500"
  shows "sp + 8 * of_nat i \<noteq> sp + 4000"
proof
  assume "sp + 8 * of_nat i = sp + 4000"
  then have "unat (8 * of_nat i :: 64 word) = unat (4000 :: 64 word)"
    by simp
  moreover have "unat (8 * of_nat i :: 64 word) = 8 * i"
    using assms by (simp add: unat_word_ariths unat_of_nat)
  ultimately show False
    using assms by simp
qed

lemma scan_stack_loop_found:
  assumes nowrap: "unat (last_stack_pointer cursor) + 4000 < 2 ^ 64"
    and K: "K \<le> 500"
    and before: "\<forall>i<K. \<exists>w. plframe_read_addr env (last_stack_pointer cursor + 8 * of_nat i) = Some w
                        \<and> \<not> plframe_cursor_address_looks_valid cursor w"
    and found: "plframe_read_addr env (last_stack_pointer cursor + 8 * of_nat K) = Some data"
    and valid: "plframe_cursor_address_looks_valid cursor data"
    and j: "j \<le> K"
  shows "scan_stack_loop env cursor (last_stack_pointer cursor + 8 * of_nat j) =
         Some (PLFRAME_ESUCCESS,
               cursor\<lparr>last_stack_pointer := last_stack_pointer cursor + 8 * of_nat K + 8,
                      last_valid_frame := data\<rparr>)"
  using j
proof (induction "K - j" arbitrary: j)
  case 0
  then have jK: "j = K" by simp
  have le: "last_stack_pointer cursor + 8 * of_nat K \<le> last_stack_pointer cursor + search_space * 8"
    using nowrap K by (rule window_le)
  show ?case
    unfolding jK
    by (subst scan_stack_loop.simps) (simp add: le found valid)
next
  case (Suc n)
  then have jlt: "j < K" and n: "n = K - Suc j" and sj: "Suc j \<le> K" by simp_all
  from before jlt obtain w where
    w: "plframe_read_addr env (last_stack_pointer cursor + 8 * of_nat j) = Some w"
    and nv: "\<not> plframe_cursor_address_looks_valid cursor w" by blast
  have le: "last_stack_pointer cursor + 8 * of_nat j \<le> last_stack_pointer cursor + search_space * 8"
    using nowrap K jlt by (intro window_le) simp_all
  have step: "last_stack_pointer cursor + 8 * of_nat j + 8 = last_stack_pointer cursor + 8 * of_nat (Suc j)"
    by simp
  have "scan_stack_loop env cursor (last_stack_pointer cursor + 8 * of_nat j) =
        scan_stack_loop env cursor (last_stack_pointer cursor + 8 * of_nat j + 8)"
    by (subst scan_stack_loop.simps) (simp add: le w nv)
  also have "\<dots> = scan_stack_loop env cursor (last_stack_pointer cursor + 8 * of_nat (Suc j))"
    by (simp only: step)
  also have "\<dots> = Some (PLFRAME_ESUCCESS,
               cursor\<lparr>last_stack_pointer := last_stack_pointer cursor + 8 * of_nat K + 8,
                      last_valid_frame := data\<rparr>)"
    using Suc.hyps(1) [OF n sj] .
  finally show ?case .
qed

lemma scan_stack_loop_returns:
  assumes nowrap: "unat (last_stack_pointer cursor) + 4008 < 2 ^ 64"
    and j: "j \<le> 501"
  shows "\<exists>y. scan_stack_loop env cursor (last_stack_pointer cursor + 8 * of_nat j) = Some y"
  using j
proof (induction "501 - j" arbitrary: j)
  case 0
  then have j: "j = 501" by simp
  show ?case
    unfolding j using window_end [OF nowrap]
    by (subst scan_stack_loop.simps) simp
next
  case (Suc n)
  then have n: "n = 501 - Suc j" and sj: "Suc j \<le> 501" by simp_all
  have step: "last_stack_pointer cursor + 8 * of_nat j + 8 = last_stack_pointer cursor + 8 * of_nat (Suc j)"
    by simp
  from Suc.hyps(1) [OF n sj] obtain y where
    "scan_stack_loop env cursor (last_stack_pointer cursor + 8 * of_nat j + 8) = Some y"
    unfolding step by blast
  then show ?case
    by (subst scan_stack_loop.simps) (simp split: option.splits)
qed

lemma scan_stack_wrapped:
  assumes "2 ^ 64 \<le> unat (last_stack_pointer cursor) + 4000"
  shows "plframe_cursor_scan_stack env cursor = Some (PLFRAME_ENOFRAME, cursor)"
  unfolding plframe_cursor_scan_stack_def
  using window_wrapped [OF assms] by (subst scan_stack_loop.simps) simp


lemma scan_stack_returns:
  assumes "unat (last_stack_pointer cursor) + 4008 < 2 ^ 64"
  shows "\<exists>y. plframe_cursor_scan_stack env cursor = Some y"
  using scan_stack_loop_returns [OF assms, of 0 env]
  by (simp add: plframe_cursor_scan_stack_def)

subsection \<open>Scans of the example inputs\<close>

lemma example_looks_valid:
  "plframe_cursor_address_looks_valid (example_cursor script sp example_images) 0x100001234"
  "\<not> plframe_cursor_address_looks_valid (example_cursor script sp images) 0"
  by (simp_all add: looks_valid_iff example_cursor_fields example_images_def)

lemma zero_but_window:
  assumes "i < 500"
  shows "zero_but (sp + 4000) w (sp + 8 * of_nat i) = Some 0"
  using window_distinct [OF assms, of sp] by (simp add: zero_but_def)

lemma example_scan_unreadable:
  "plframe_cursor_scan_stack (script_env script' unreadable) (example_cursor script sp images) =
     Some (PLFRAME_ENOFRAME, example_cursor script sp images)"
  unfolding plframe_cursor_scan_stack_def
  by (subst scan_stack_loop.simps) (simp add: script_env_def unreadable_def)

lemma example_scan_first_word:
  "plframe_cursor_scan_stack (script_env script' (all_words 0x100001234))
       (example_cursor [] 0x7FFF5FBFF000 example_images) =
     Some (PLFRAME_ESUCCESS,
           (example_cursor [] 0x7FFF5FBFF000 example_images)
             \<lparr>last_stack_pointer := 0x7FFF5FBFF008, last_valid_frame := 0x100001234\<rparr>)"
  unfolding plframe_cursor_scan_stack_def
  by (subst scan_stack_loop.simps)
     (simp add: script_env_def all_words_def example_looks_valid example_cursor_fields
        search_space_def)

subsection \<open>The claims about the scanner\<close>

text \<open>
  C4, as amended. Let the loop bound not wrap around
  (\<open>last_stack_pointer + 4000 < 2 ^ 64\<close>), let \<open>K < 500\<close>, let the words at
  \<open>last_stack_pointer + 8 * i\<close> for \<open>i < K\<close> be readable and rejected by the address
  validator, and let the word at \<open>last_stack_pointer + 8 * K\<close> be readable and accepted.
  Then the scan returns success, \<open>last_valid_frame\<close> is that word, and
  \<open>last_stack_pointer\<close> is the address of that word plus 8, one word past it.
\<close>

theorem scan_stack_finds_word:
  assumes "unat (last_stack_pointer cursor) + 4000 < 2 ^ 64"
    and "K < 500"
    and "\<forall>i<K. \<exists>w. plframe_read_addr env (last_stack_pointer cursor + 8 * of_nat i) = Some w
                    \<and> \<not> plframe_cursor_address_looks_valid cursor w"
    and "plframe_read_addr env (last_stack_pointer cursor + 8 * of_nat K) = Some data"
    and "plframe_cursor_address_looks_valid cursor data"
  shows "plframe_cursor_scan_stack env cursor =
         Some (PLFRAME_ESUCCESS,
               cursor\<lparr>last_stack_pointer := (last_stack_pointer cursor + 8 * of_nat K) + 8,
                      last_valid_frame := data\<rparr>)"
  using scan_stack_loop_found [OF assms(1) _ assms(3) assms(4) assms(5), of 0] assms(2)
  by (simp add: plframe_cursor_scan_stack_def)

theorem scan_stack_finds_word_witness:
  "plframe_cursor_scan_stack (script_env [] (zero_but 0x7FFF5FBFF010 0x100001234))
       (example_cursor [] 0x7FFF5FBFF000 example_images) =
     Some (PLFRAME_ESUCCESS,
           (example_cursor [] 0x7FFF5FBFF000 example_images)
             \<lparr>last_stack_pointer := 0x7FFF5FBFF018, last_valid_frame := 0x100001234\<rparr>)"
proof -
  let ?env = "script_env [] (zero_but 0x7FFF5FBFF010 0x100001234)"
  let ?c = "example_cursor [] 0x7FFF5FBFF000 example_images"
  have mem: "plframe_read_addr ?env = zero_but 0x7FFF5FBFF010 0x100001234"
    by (simp add: script_env_def)
  have h1: "unat (last_stack_pointer ?c) + 4000 < 2 ^ 64"
    by (simp add: example_cursor_fields)
  have h2: "(2::nat) < 500" by simp
  have h3: "\<forall>i<2. \<exists>w. plframe_read_addr ?env (last_stack_pointer ?c + 8 * of_nat i) = Some w
                    \<and> \<not> plframe_cursor_address_looks_valid ?c w"
    by (auto simp add: mem zero_but_def example_looks_valid example_cursor_fields
        less_2_cases_iff)
  have h4: "plframe_read_addr ?env (last_stack_pointer ?c + 8 * of_nat 2) = Some 0x100001234"
    by (simp add: mem zero_but_def example_cursor_fields)
  have h5: "plframe_cursor_address_looks_valid ?c 0x100001234"
    by (rule example_looks_valid)
  show ?thesis
    using scan_stack_finds_word [OF h1 h2 h3 h4 h5]
    by (simp add: example_cursor_fields)
qed

text \<open>
  C4 as stated fails where the bound wraps around. With \<open>last_stack_pointer\<close> at
  \<open>0xFFFFFFFFFFFFFFF8\<close> the bound \<open>last_stack_pointer + 4000\<close> is \<open>0xF98\<close>, the loop
  test fails before the first read, and the scan returns no frame although word 0 of the
  stack is readable and accepted.
\<close>

theorem scan_stack_wrapped_window_counterexample:
  "plframe_read_addr (script_env [] (all_words 0x100001234))
       (last_stack_pointer (example_cursor [] 0xFFFFFFFFFFFFFFF8 example_images) + 8 * of_nat 0) =
     Some 0x100001234 \<and>
   plframe_cursor_address_looks_valid (example_cursor [] 0xFFFFFFFFFFFFFFF8 example_images)
       0x100001234 \<and>
   plframe_cursor_scan_stack (script_env [] (all_words 0x100001234))
       (example_cursor [] 0xFFFFFFFFFFFFFFF8 example_images) =
     Some (PLFRAME_ENOFRAME, example_cursor [] 0xFFFFFFFFFFFFFFF8 example_images)"
proof -
  have "2 ^ 64 \<le> unat (last_stack_pointer (example_cursor [] 0xFFFFFFFFFFFFFFF8 example_images)) + 4000"
    by (simp add: example_cursor_fields)
  then have "plframe_cursor_scan_stack (script_env [] (all_words 0x100001234))
       (example_cursor [] 0xFFFFFFFFFFFFFFF8 example_images) =
     Some (PLFRAME_ENOFRAME, example_cursor [] 0xFFFFFFFFFFFFFFF8 example_images)"
    by (rule scan_stack_wrapped)
  then show ?thesis
    by (simp add: script_env_def all_words_def example_looks_valid)
qed

text \<open>
  C5. The loop test is \<open>loc \<le> last_stack_pointer + 500 * 8\<close>, so a scan reads up to
  501 words. Here the 500 words at offsets \<open>0\<close> to \<open>3992\<close> read zero and are rejected,
  and the word at offset \<open>4000\<close> is an address inside the image: the scan reads it,
  returns success and moves \<open>last_stack_pointer\<close> and \<open>last_valid_frame\<close>.
\<close>

theorem scan_stack_reads_word_501:
  "plframe_cursor_scan_stack (script_env [] (zero_but 0x7FFF5FBFFFA0 0x100001234))
       (example_cursor [] 0x7FFF5FBFF000 example_images) =
     Some (PLFRAME_ESUCCESS,
           (example_cursor [] 0x7FFF5FBFF000 example_images)
             \<lparr>last_stack_pointer := 0x7FFF5FBFFFA8, last_valid_frame := 0x100001234\<rparr>)"
proof -
  let ?env = "script_env [] (zero_but 0x7FFF5FBFFFA0 0x100001234)"
  let ?c = "example_cursor [] 0x7FFF5FBFF000 example_images"
  have mem: "plframe_read_addr ?env = zero_but 0x7FFF5FBFFFA0 0x100001234"
    by (simp add: script_env_def)
  have sp: "last_stack_pointer ?c = 0x7FFF5FBFF000"
    by (simp add: example_cursor_fields)
  have at: "(0x7FFF5FBFFFA0 :: 64 word) = 0x7FFF5FBFF000 + 4000"
    by simp
  have h1: "unat (last_stack_pointer ?c) + 4000 < 2 ^ 64"
    by (simp add: example_cursor_fields)
  have zb: "zero_but 0x7FFF5FBFFFA0 0x100001234 (0x7FFF5FBFF000 + 8 * of_nat i) = Some 0"
    if "i < 500" for i :: nat
    unfolding at using that by (rule zero_but_window)
  have h3: "\<forall>i<500. \<exists>w. plframe_read_addr ?env (last_stack_pointer ?c + 8 * of_nat i) = Some w
                    \<and> \<not> plframe_cursor_address_looks_valid ?c w"
    by (simp add: mem sp zb example_looks_valid)
  have h4: "plframe_read_addr ?env (last_stack_pointer ?c + 8 * of_nat 500) = Some 0x100001234"
    by (simp add: mem zero_but_def example_cursor_fields)
  have h5: "plframe_cursor_address_looks_valid ?c 0x100001234"
    by (rule example_looks_valid)
  show ?thesis
    using scan_stack_loop_found [OF h1 _ h3 h4 h5, of 0]
    by (simp add: example_cursor_fields plframe_cursor_scan_stack_def)
qed

text \<open>
  C9. Whatever the cursor and the memory, a scan that returns leaves the frame index, the
  end-of-stack flag, the snapshot and the image list as they were, and returns no frame or
  success. On no frame the whole cursor is unchanged; on success it differs from the old
  one in \<open>last_stack_pointer\<close> and \<open>last_valid_frame\<close> at most.
\<close>

theorem scan_stack_frame:
  assumes "plframe_cursor_scan_stack env cursor = Some (result, cursor')"
  shows "nframe cursor' = nframe cursor \<and> endstack cursor' = endstack cursor \<and>
         uap cursor' = uap cursor \<and> image_list cursor' = image_list cursor \<and>
         (result = PLFRAME_ENOFRAME \<or> result = PLFRAME_ESUCCESS) \<and>
         (result = PLFRAME_ENOFRAME \<longrightarrow> cursor' = cursor) \<and>
         (result = PLFRAME_ESUCCESS \<longrightarrow>
            cursor' = cursor\<lparr>last_stack_pointer := last_stack_pointer cursor',
                              last_valid_frame := last_valid_frame cursor'\<rparr>)"
  using scan_stack_result [OF assms] by auto


theorem scan_stack_frame_witness:
  "plframe_cursor_scan_stack (script_env [] unreadable)
       (example_cursor [] 0x7FFF5FBFF000 example_images) =
     Some (PLFRAME_ENOFRAME, example_cursor [] 0x7FFF5FBFF000 example_images) \<and>
   plframe_cursor_scan_stack (script_env [] (all_words 0x100001234))
       (example_cursor [] 0x7FFF5FBFF000 example_images) =
     Some (PLFRAME_ESUCCESS,
           (example_cursor [] 0x7FFF5FBFF000 example_images)
             \<lparr>last_stack_pointer := 0x7FFF5FBFF008, last_valid_frame := 0x100001234\<rparr>) \<and>
   nframe ((example_cursor [] 0x7FFF5FBFF000 example_images)
             \<lparr>last_stack_pointer := 0x7FFF5FBFF008, last_valid_frame := 0x100001234\<rparr>) = - 1 \<and>
   endstack ((example_cursor [] 0x7FFF5FBFF000 example_images)
             \<lparr>last_stack_pointer := 0x7FFF5FBFF008, last_valid_frame := 0x100001234\<rparr>) = False \<and>
   image_list ((example_cursor [] 0x7FFF5FBFF000 example_images)
             \<lparr>last_stack_pointer := 0x7FFF5FBFF008, last_valid_frame := 0x100001234\<rparr>) =
     example_images"
  using scan_stack_frame [OF example_scan_unreadable [of "[]" "[]" "0x7FFF5FBFF000" example_images]]
    scan_stack_frame [OF example_scan_first_word [of "[]"]]
  by (simp add: example_scan_unreadable example_scan_first_word example_cursor_fields)

text \<open>
  C10. When a scan returns success, the word it has recorded in \<open>last_valid_frame\<close> has
  upper 32 bits that are not all zero, that is, it is at least \<open>2 ^ 32\<close>.
\<close>

theorem scan_stack_found_is_high:
  assumes "plframe_cursor_scan_stack env cursor = Some (PLFRAME_ESUCCESS, cursor')"
  shows "drop_bit 32 (last_valid_frame cursor') \<noteq> 0 \<and> 2 ^ 32 \<le> last_valid_frame cursor'"
  using scan_stack_result [OF assms]
  by (auto simp add: looks_valid_iff drop_bit_32_zero_iff_less)


theorem scan_stack_found_is_high_witness:
  "plframe_cursor_scan_stack (script_env [(1, 0x100001100)] (all_words 0x100001234))
       (example_cursor [] 0x7FFF5FBFF000 example_images) =
     Some (PLFRAME_ESUCCESS,
           (example_cursor [] 0x7FFF5FBFF000 example_images)
             \<lparr>last_stack_pointer := 0x7FFF5FBFF008, last_valid_frame := 0x100001234\<rparr>) \<and>
   drop_bit 32 (0x100001234 :: 64 word) \<noteq> 0 \<and> (2 ^ 32 :: 64 word) \<le> 0x100001234"
  using scan_stack_found_is_high [OF example_scan_first_word [of "[(1, 0x100001100)]"]]
  by (simp add: example_scan_first_word)

section \<open>Properties of advancing the cursor\<close>

subsection \<open>The paths of an advance call\<close>

lemma sint_incr_not_sentinel:
  assumes "0 \<le> sint (x :: 32 word)"
  shows "x + 1 \<noteq> - 1"
proof
  assume "x + 1 = - 1"
  then have "x = - 1 - 1" by (metis add_diff_cancel_right')
  then have "x = - 2" by simp
  with assms show False by simp
qed


lemma next_endstack:
  "nframe cursor \<noteq> - 1 \<Longrightarrow> endstack cursor \<Longrightarrow>
   plframe_cursor_next env cursor = Some (PLFRAME_ENOFRAME, cursor)"
  by (simp add: plframe_cursor_next_def)

lemma next_done:
  assumes "nframe cursor \<noteq> - 1" "\<not> endstack cursor"
    and "unw_step env (unwcrsr cursor) = (0, u)"
  shows "plframe_cursor_next env cursor =
     (if snd (unw_get_reg env (unwcrsr cursor) UNW_REG_IP) = snd (unw_get_reg env u UNW_REG_IP)
      then (case plframe_cursor_scan_stack env
                   (cursor\<lparr>last_unwind_address := snd (unw_get_reg env (unwcrsr cursor) UNW_REG_IP),
                      unwcrsr := u, nframe := nframe cursor + 1\<rparr>) of
              None \<Rightarrow> None
            | Some scanned \<Rightarrow> after_scan env scanned)
      else Some (PLFRAME_ESUCCESS,
                 cursor\<lparr>last_unwind_address := snd (unw_get_reg env (unwcrsr cursor) UNW_REG_IP),
                        unwcrsr := u, nframe := nframe cursor + 1, endstack := True,
                        last_valid_frame := snd (unw_get_reg env u UNW_REG_IP)\<rparr>))"
  using assms by (simp add: plframe_cursor_next_def Let_def record_valid_frame_def)








subsection \<open>Advance calls on the example inputs\<close>


lemma example_step_done:
  "unw_step (script_env script' mem) (pc, []) = (0, (pc, []))"
  "unw_step (script_env script' mem) (pc, [(0, pc')]) = (0, (pc', []))"
  by (simp_all add: script_env_def script_step_def)

lemma example_get_ip:
  "snd (unw_get_reg (script_env script' mem) u UNW_REG_IP) = fst u"
  by (simp add: script_env_def)

lemma scan_stack_unreadable:
  assumes "plframe_read_addr env (last_stack_pointer cursor) = None"
  shows "plframe_cursor_scan_stack env cursor = Some (PLFRAME_ENOFRAME, cursor)"
  unfolding plframe_cursor_scan_stack_def
  using assms by (subst scan_stack_loop.simps) simp

lemma example_next_same_unreadable:
  "plframe_cursor_next (script_env [] unreadable)
       ((example_cursor [] 0x7FFF5FBFF000 example_images)\<lparr>nframe := 0\<rparr>) =
     Some (PLFRAME_ESUCCESS,
           (example_cursor [] 0x7FFF5FBFF000 example_images)
             \<lparr>last_unwind_address := 0x100001000, unwcrsr := (0x100001000, []),
              nframe := 1, endstack := True, last_valid_frame := 0x100001000\<rparr>)"
proof -
  let ?env = "script_env [] unreadable"
  let ?c = "(example_cursor [] 0x7FFF5FBFF000 example_images)\<lparr>nframe := 0\<rparr>"
  have "plframe_cursor_scan_stack ?env
          ((example_cursor [] 0x7FFF5FBFF000 example_images)
             \<lparr>last_unwind_address := 0x100001000, unwcrsr := (0x100001000, []),
              nframe := 1\<rparr>) =
        Some (PLFRAME_ENOFRAME,
              (example_cursor [] 0x7FFF5FBFF000 example_images)
                \<lparr>last_unwind_address := 0x100001000, unwcrsr := (0x100001000, []),
              nframe := 1\<rparr>)"
    by (rule scan_stack_unreadable) (simp add: script_env_def unreadable_def)
  then show ?thesis
    using next_done [of ?c ?env "(0x100001000, [])"]
    by (simp add: example_cursor_fields example_step_done example_get_ip after_scan_def
        record_valid_frame_def)
qed




subsection \<open>The claims about advancing\<close>

text \<open>
  C1. The cursor is in state \<open>Frame(n)\<close> (\<open>0 \<le> sint nframe\<close>, flag not set) and the provider's
  step reports done (status 0, new provider state \<open>u\<close>). If the program counter read
  after the step equals the one recorded in \<open>last_unwind_address\<close> before it, the outcome
  of the call is computed from the outcome of the stack scan of the stepped cursor (and
  the call does not return when the scan does not). If the two differ, the call returns
  success with the end-of-stack flag set, and the same whatever the stack memory holds:
  no scan takes part in it.
\<close>

theorem next_duplicate_frame_heuristic:
  assumes "0 \<le> sint (nframe cursor)" and "\<not> endstack cursor"
    and "unw_step env (unwcrsr cursor) = (0, u)"
  shows
    "(snd (unw_get_reg env u UNW_REG_IP) = snd (unw_get_reg env (unwcrsr cursor) UNW_REG_IP) \<longrightarrow>
        plframe_cursor_next env cursor =
          (case plframe_cursor_scan_stack env
                  (cursor\<lparr>last_unwind_address :=
                              snd (unw_get_reg env (unwcrsr cursor) UNW_REG_IP),
                          unwcrsr := u, nframe := nframe cursor + 1\<rparr>) of
             None \<Rightarrow> None
           | Some scanned \<Rightarrow> after_scan env scanned)) \<and>
     (snd (unw_get_reg env u UNW_REG_IP) \<noteq> snd (unw_get_reg env (unwcrsr cursor) UNW_REG_IP) \<longrightarrow>
        plframe_cursor_next env cursor =
           Some (PLFRAME_ESUCCESS,
                 cursor\<lparr>last_unwind_address :=
                             snd (unw_get_reg env (unwcrsr cursor) UNW_REG_IP),
                        unwcrsr := u, nframe := nframe cursor + 1, endstack := True,
                        last_valid_frame := snd (unw_get_reg env u UNW_REG_IP)\<rparr>) \<and>
        (\<forall>mem. plframe_cursor_next (env\<lparr>plframe_read_addr := mem\<rparr>) cursor =
                 plframe_cursor_next env cursor))"
proof -
  from assms(1) have nf: "nframe cursor \<noteq> - 1" by auto
  have same: "snd (unw_get_reg env u UNW_REG_IP) = snd (unw_get_reg env (unwcrsr cursor) UNW_REG_IP)
      \<Longrightarrow> ?thesis"
    using next_done [OF nf assms(2) assms(3)] by simp
  have other: "plframe_cursor_next (env\<lparr>plframe_read_addr := mem\<rparr>) cursor =
           Some (PLFRAME_ESUCCESS,
                 cursor\<lparr>last_unwind_address :=
                             snd (unw_get_reg env (unwcrsr cursor) UNW_REG_IP),
                        unwcrsr := u, nframe := nframe cursor + 1, endstack := True,
                        last_valid_frame := snd (unw_get_reg env u UNW_REG_IP)\<rparr>)"
    if "snd (unw_get_reg env u UNW_REG_IP) \<noteq> snd (unw_get_reg env (unwcrsr cursor) UNW_REG_IP)"
    for mem
  proof -
    have "unw_step (env\<lparr>plframe_read_addr := mem\<rparr>) (unwcrsr cursor) = (0, u)"
      using assms(3) by simp
    from next_done [OF nf assms(2) this] that show ?thesis
      by (simp add: eq_commute)
  qed
  have plain: "env\<lparr>plframe_read_addr := plframe_read_addr env\<rparr> = env"
    by simp
  show ?thesis
    using same other other [of "plframe_read_addr env"] unfolding plain by auto
qed


theorem next_duplicate_frame_heuristic_witness:
  "plframe_cursor_next (script_env [] (all_words 0x100001234))
       ((example_cursor [] 0x7FFF5FBFF000 example_images)\<lparr>nframe := 0\<rparr>) =
     Some (PLFRAME_ESUCCESS,
           (example_cursor [] 0x7FFF5FBFF000 example_images)
             \<lparr>nframe := 1, last_unwind_address := 0x100001000,
              last_stack_pointer := 0x7FFF5FBFF008, last_valid_frame := 0x100001234,
              unwcrsr := (0x100001234, [])\<rparr>) \<and>
   plframe_cursor_next (script_env [] (all_words 0x100001234))
       ((example_cursor [(0, 0x100001100)] 0x7FFF5FBFF000 example_images)\<lparr>nframe := 0\<rparr>) =
     Some (PLFRAME_ESUCCESS,
           (example_cursor [(0, 0x100001100)] 0x7FFF5FBFF000 example_images)
             \<lparr>nframe := 1, last_unwind_address := 0x100001000, endstack := True,
              last_valid_frame := 0x100001100, unwcrsr := (0x100001100, [])\<rparr>)"
proof -
  let ?env = "script_env [] (all_words 0x100001234)"
  let ?same = "(example_cursor [] 0x7FFF5FBFF000 example_images)\<lparr>nframe := 0\<rparr>"
  let ?other = "(example_cursor [(0, 0x100001100)] 0x7FFF5FBFF000 example_images)\<lparr>nframe := 0\<rparr>"
  have s1: "0 \<le> sint (nframe ?same)" and s2: "\<not> endstack ?same"
    and s3: "unw_step ?env (unwcrsr ?same) = (0, (0x100001000, []))"
    by (simp_all add: example_cursor_fields example_step_done)
  have o1: "0 \<le> sint (nframe ?other)" and o2: "\<not> endstack ?other"
    and o3: "unw_step ?env (unwcrsr ?other) = (0, (0x100001100, []))"
    by (simp_all add: example_cursor_fields example_step_done)
  have scan: "plframe_cursor_scan_stack ?env
        ((example_cursor [] 0x7FFF5FBFF000 example_images)
           \<lparr>last_unwind_address := 0x100001000, unwcrsr := (0x100001000, []),
            nframe := 1\<rparr>) =
      Some (PLFRAME_ESUCCESS,
            (example_cursor [] 0x7FFF5FBFF000 example_images)
              \<lparr>last_unwind_address := 0x100001000, unwcrsr := (0x100001000, []),
               nframe := 1, last_stack_pointer := 0x7FFF5FBFF008,
               last_valid_frame := 0x100001234\<rparr>)"
    unfolding plframe_cursor_scan_stack_def
    by (subst scan_stack_loop.simps)
       (simp add: script_env_def all_words_def looks_valid_iff example_cursor_fields
          example_images_def search_space_def)
  have seed: "unw_init_local ?env ss = (0, (ss_rip ss, []))" for ss
    by (simp add: script_env_def)
  have err: "plframe_error_from_unwerror ?env 0 = PLFRAME_ESUCCESS"
    by (simp add: script_env_def)
  show ?thesis
    using next_duplicate_frame_heuristic [OF s1 s2 s3]
      next_duplicate_frame_heuristic [OF o1 o2 o3]
    by (simp add: example_get_ip example_cursor_fields scan after_scan_def seed err)
qed

text \<open>
  C2, as amended. The cursor is in state \<open>Frame(n)\<close>, the provider's step reports done
  with the program counter equal to \<open>last_unwind_address\<close>, and the scan of the stepped
  cursor returns. The call then returns what lines 233 to 251 make of the scan's outcome.
  On no frame that is: the end-of-stack flag is set and this call returns success; the
  call after it returns no more frames. An outcome of the scan other than no frame and
  success is returned as it is.
\<close>

theorem next_scan_no_frame:
  assumes "0 \<le> sint (nframe cursor)" and "\<not> endstack cursor"
    and "unw_step env (unwcrsr cursor) = (0, u)"
    and "snd (unw_get_reg env u UNW_REG_IP) = snd (unw_get_reg env (unwcrsr cursor) UNW_REG_IP)"
    and "plframe_cursor_scan_stack env
           (cursor\<lparr>last_unwind_address := snd (unw_get_reg env (unwcrsr cursor) UNW_REG_IP),
                   unwcrsr := u, nframe := nframe cursor + 1\<rparr>) = Some (result, scanned)"
  shows
    "plframe_cursor_next env cursor = after_scan env (result, scanned) \<and>
     (result = PLFRAME_ENOFRAME \<longrightarrow>
        plframe_cursor_next env cursor =
          Some (PLFRAME_ESUCCESS,
                cursor\<lparr>last_unwind_address := snd (unw_get_reg env (unwcrsr cursor) UNW_REG_IP),
                       unwcrsr := u, nframe := nframe cursor + 1, endstack := True,
                       last_valid_frame := snd (unw_get_reg env u UNW_REG_IP)\<rparr>) \<and>
        plframe_cursor_next env
            (cursor\<lparr>last_unwind_address := snd (unw_get_reg env (unwcrsr cursor) UNW_REG_IP),
                    unwcrsr := u, nframe := nframe cursor + 1, endstack := True,
                    last_valid_frame := snd (unw_get_reg env u UNW_REG_IP)\<rparr>) =
          Some (PLFRAME_ENOFRAME,
                cursor\<lparr>last_unwind_address := snd (unw_get_reg env (unwcrsr cursor) UNW_REG_IP),
                       unwcrsr := u, nframe := nframe cursor + 1, endstack := True,
                       last_valid_frame := snd (unw_get_reg env u UNW_REG_IP)\<rparr>)) \<and>
     (\<forall>error c. error \<noteq> PLFRAME_ENOFRAME \<longrightarrow> error \<noteq> PLFRAME_ESUCCESS \<longrightarrow>
        after_scan env (error, c) = Some (error, c))"
proof -
  from assms(1) have nf: "nframe cursor \<noteq> - 1" by auto
  let ?c2 = "cursor\<lparr>last_unwind_address := snd (unw_get_reg env (unwcrsr cursor) UNW_REG_IP),
                   unwcrsr := u, nframe := nframe cursor + 1\<rparr>"
  have nx: "plframe_cursor_next env cursor = after_scan env (result, scanned)"
    using next_done [OF nf assms(2) assms(3)] assms(4) assms(5) by simp
  have err: "\<forall>error c. error \<noteq> PLFRAME_ENOFRAME \<longrightarrow> error \<noteq> PLFRAME_ESUCCESS \<longrightarrow>
        after_scan env (error, c) = Some (error, c)"
    by (simp add: after_scan_def)
  have nofr: "plframe_cursor_next env cursor =
          Some (PLFRAME_ESUCCESS, ?c2\<lparr>endstack := True,
                       last_valid_frame := snd (unw_get_reg env u UNW_REG_IP)\<rparr>) \<and>
        plframe_cursor_next env (?c2\<lparr>endstack := True,
                       last_valid_frame := snd (unw_get_reg env u UNW_REG_IP)\<rparr>) =
          Some (PLFRAME_ENOFRAME, ?c2\<lparr>endstack := True,
                       last_valid_frame := snd (unw_get_reg env u UNW_REG_IP)\<rparr>)"
    if r: "result = PLFRAME_ENOFRAME"
  proof -
    from scan_stack_result [OF assms(5)] r have "scanned = ?c2" by simp
    with nx r have "plframe_cursor_next env cursor =
          Some (PLFRAME_ESUCCESS, ?c2\<lparr>endstack := True,
                       last_valid_frame := snd (unw_get_reg env u UNW_REG_IP)\<rparr>)"
      by (simp add: after_scan_def record_valid_frame_def)
    moreover have "plframe_cursor_next env (?c2\<lparr>endstack := True,
                       last_valid_frame := snd (unw_get_reg env u UNW_REG_IP)\<rparr>) =
          Some (PLFRAME_ENOFRAME, ?c2\<lparr>endstack := True,
                       last_valid_frame := snd (unw_get_reg env u UNW_REG_IP)\<rparr>)"
      using sint_incr_not_sentinel [OF assms(1)] by (intro next_endstack) simp_all
    ultimately show ?thesis by simp
  qed
  from nx err nofr show ?thesis by simp
qed


theorem next_scan_no_frame_witness:
  "plframe_cursor_next (script_env [] unreadable)
       ((example_cursor [] 0x7FFF5FBFF000 example_images)\<lparr>nframe := 0\<rparr>) =
     Some (PLFRAME_ESUCCESS,
           (example_cursor [] 0x7FFF5FBFF000 example_images)
             \<lparr>last_unwind_address := 0x100001000, unwcrsr := (0x100001000, []),
              nframe := 1, endstack := True, last_valid_frame := 0x100001000\<rparr>) \<and>
   plframe_cursor_next (script_env [] unreadable)
       ((example_cursor [] 0x7FFF5FBFF000 example_images)
          \<lparr>last_unwind_address := 0x100001000, unwcrsr := (0x100001000, []),
           nframe := 1, endstack := True, last_valid_frame := 0x100001000\<rparr>) =
     Some (PLFRAME_ENOFRAME,
           (example_cursor [] 0x7FFF5FBFF000 example_images)
             \<lparr>last_unwind_address := 0x100001000, unwcrsr := (0x100001000, []),
              nframe := 1, endstack := True, last_valid_frame := 0x100001000\<rparr>) \<and>
   after_scan (script_env [] unreadable)
       (PLFRAME_EBADFRAME, example_cursor [] 0x7FFF5FBFF000 example_images) =
     Some (PLFRAME_EBADFRAME, example_cursor [] 0x7FFF5FBFF000 example_images)"
proof -
  let ?env = "script_env [] unreadable"
  let ?c = "(example_cursor [] 0x7FFF5FBFF000 example_images)\<lparr>nframe := 0\<rparr>"
  let ?c2 = "?c\<lparr>last_unwind_address := snd (unw_get_reg ?env (unwcrsr ?c) UNW_REG_IP),
               unwcrsr := (0x100001000, []), nframe := nframe ?c + 1\<rparr>"
  have h1: "0 \<le> sint (nframe ?c)" and h2: "\<not> endstack ?c"
    and h3: "unw_step ?env (unwcrsr ?c) = (0, (0x100001000, []))"
    and h4: "snd (unw_get_reg ?env (0x100001000, []) UNW_REG_IP) =
             snd (unw_get_reg ?env (unwcrsr ?c) UNW_REG_IP)"
    by (simp_all add: example_cursor_fields example_step_done example_get_ip)
  have h5: "plframe_cursor_scan_stack ?env ?c2 = Some (PLFRAME_ENOFRAME, ?c2)"
    by (rule scan_stack_unreadable) (simp add: script_env_def unreadable_def)
  show ?thesis
    using next_scan_no_frame [OF h1 h2 h3 h4 h5, THEN conjunct2]
    by (simp add: example_cursor_fields example_get_ip)
qed

text \<open>
  C2 as stated fails: on the example, where the provider reports done at the same program
  counter and the scan reports no frame (the stack cannot be read), the call returns
  success with the flag set, not the no-more-frames outcome.
\<close>

theorem next_scan_no_frame_counterexample:
  "unw_step (script_env [] unreadable)
       (unwcrsr ((example_cursor [] 0x7FFF5FBFF000 example_images)\<lparr>nframe := 0\<rparr>)) =
     (0, (0x100001000, [])) \<and>
   plframe_cursor_scan_stack (script_env [] unreadable)
       ((example_cursor [] 0x7FFF5FBFF000 example_images)
          \<lparr>last_unwind_address := 0x100001000, unwcrsr := (0x100001000, []),
              nframe := 1\<rparr>) =
     Some (PLFRAME_ENOFRAME,
           (example_cursor [] 0x7FFF5FBFF000 example_images)
             \<lparr>last_unwind_address := 0x100001000, unwcrsr := (0x100001000, []),
              nframe := 1\<rparr>) \<and>
   map_option fst
       (plframe_cursor_next (script_env [] unreadable)
          ((example_cursor [] 0x7FFF5FBFF000 example_images)\<lparr>nframe := 0\<rparr>)) =
     Some PLFRAME_ESUCCESS \<and>
   map_option fst
       (plframe_cursor_next (script_env [] unreadable)
          ((example_cursor [] 0x7FFF5FBFF000 example_images)\<lparr>nframe := 0\<rparr>)) \<noteq>
     Some PLFRAME_ENOFRAME"
proof -
  have "plframe_cursor_scan_stack (script_env [] unreadable)
       ((example_cursor [] 0x7FFF5FBFF000 example_images)
          \<lparr>last_unwind_address := 0x100001000, unwcrsr := (0x100001000, []),
              nframe := 1\<rparr>) =
     Some (PLFRAME_ENOFRAME,
           (example_cursor [] 0x7FFF5FBFF000 example_images)
             \<lparr>last_unwind_address := 0x100001000, unwcrsr := (0x100001000, []),
              nframe := 1\<rparr>)"
    by (rule scan_stack_unreadable) (simp add: script_env_def unreadable_def)
  then show ?thesis
    by (simp add: example_next_same_unreadable example_cursor_fields example_step_done)
qed




section \<open>Properties of register access\<close>

text \<open>
  C7. On every frame but frame 0, the program-counter register is read from
  \<open>last_valid_frame\<close> and every other register identifier is unsupported.
\<close>

theorem get_reg_later_frames:
  assumes "nframe cursor \<noteq> 0"
  shows "plframe_get_reg env cursor PLFRAME_X86_64_RIP =
           (PLFRAME_ESUCCESS, Some (last_valid_frame cursor)) \<and>
         (\<forall>regnum. regnum \<noteq> PLFRAME_X86_64_RIP \<longrightarrow>
            plframe_get_reg env cursor regnum = (PLFRAME_ENOTSUP, None))"
  using assms by (simp add: plframe_get_reg_def)


theorem get_reg_later_frames_witness:
  "plframe_get_reg (script_env [] unreadable)
       ((example_cursor [] 0x7FFF5FBFF000 example_images)\<lparr>nframe := 1\<rparr>)
       PLFRAME_X86_64_RIP = (PLFRAME_ESUCCESS, Some 0x100001000) \<and>
   plframe_get_reg (script_env [] unreadable)
       ((example_cursor [] 0x7FFF5FBFF000 example_images)\<lparr>nframe := 1\<rparr>)
       PLFRAME_X86_64_RSP = (PLFRAME_ENOTSUP, None) \<and>
   plframe_get_reg (script_env [] unreadable)
       ((example_cursor [] 0x7FFF5FBFF000 example_images)\<lparr>nframe := 1\<rparr>)
       (PLFRAME_X86_64_OTHER 99) = (PLFRAME_ENOTSUP, None)"
  using get_reg_later_frames
    [of "(example_cursor [] 0x7FFF5FBFF000 example_images)\<lparr>nframe := 1\<rparr>"
        "script_env [] unreadable"]
  by (simp add: example_cursor_fields)

text \<open>
  C8, as amended. On frame 0 the flags register and the three segment registers are read
  from the thread-state snapshot, whatever the unwind provider is. On every other frame
  they are unsupported, as every register but the program counter is.
\<close>

theorem get_reg_flags_and_segments:
  "(nframe cursor = 0 \<longrightarrow>
      plframe_get_reg env cursor PLFRAME_X86_64_RFLAGS =
        (PLFRAME_ESUCCESS, Some (ss_rflags (uap cursor))) \<and>
      plframe_get_reg env cursor PLFRAME_X86_64_CS =
        (PLFRAME_ESUCCESS, Some (ss_cs (uap cursor))) \<and>
      plframe_get_reg env cursor PLFRAME_X86_64_FS =
        (PLFRAME_ESUCCESS, Some (ss_fs (uap cursor))) \<and>
      plframe_get_reg env cursor PLFRAME_X86_64_GS =
        (PLFRAME_ESUCCESS, Some (ss_gs (uap cursor)))) \<and>
   (nframe cursor \<noteq> 0 \<longrightarrow>
      plframe_get_reg env cursor PLFRAME_X86_64_RFLAGS = (PLFRAME_ENOTSUP, None) \<and>
      plframe_get_reg env cursor PLFRAME_X86_64_CS = (PLFRAME_ENOTSUP, None) \<and>
      plframe_get_reg env cursor PLFRAME_X86_64_FS = (PLFRAME_ENOTSUP, None) \<and>
      plframe_get_reg env cursor PLFRAME_X86_64_GS = (PLFRAME_ENOTSUP, None))"
  by (simp add: plframe_get_reg_def)


theorem get_reg_flags_and_segments_witness:
  "plframe_get_reg (script_env [] unreadable)
       ((example_cursor [] 0x7FFF5FBFF000 example_images)\<lparr>nframe := 0\<rparr>)
       PLFRAME_X86_64_RFLAGS = (PLFRAME_ESUCCESS, Some 0x246) \<and>
   plframe_get_reg (script_env [] unreadable)
       ((example_cursor [] 0x7FFF5FBFF000 example_images)\<lparr>nframe := 0\<rparr>)
       PLFRAME_X86_64_CS = (PLFRAME_ESUCCESS, Some 0x2B) \<and>
   plframe_get_reg (script_env [] unreadable)
       ((example_cursor [] 0x7FFF5FBFF000 example_images)\<lparr>nframe := 2\<rparr>)
       PLFRAME_X86_64_GS = (PLFRAME_ENOTSUP, None)"
  using get_reg_flags_and_segments
    [of "(example_cursor [] 0x7FFF5FBFF000 example_images)\<lparr>nframe := 0\<rparr>"
        "script_env [] unreadable"]
    get_reg_flags_and_segments
    [of "(example_cursor [] 0x7FFF5FBFF000 example_images)\<lparr>nframe := 2\<rparr>"
        "script_env [] unreadable"]
  by (simp add: example_cursor_fields example_uap_def)

text \<open>
  C8 as stated fails on every frame but frame 0: on frame 1 of the example the flags
  register is unsupported, although the snapshot holds \<open>0x246\<close> for it.
\<close>

theorem get_reg_flags_frame_1_counterexample:
  "nframe ((example_cursor [] 0x7FFF5FBFF000 example_images)\<lparr>nframe := 1\<rparr>) = 1 \<and>
   ss_rflags (uap ((example_cursor [] 0x7FFF5FBFF000 example_images)\<lparr>nframe := 1\<rparr>)) = 0x246 \<and>
   plframe_get_reg (script_env [] unreadable)
       ((example_cursor [] 0x7FFF5FBFF000 example_images)\<lparr>nframe := 1\<rparr>)
       PLFRAME_X86_64_RFLAGS = (PLFRAME_ENOTSUP, None)"
  by (simp add: plframe_get_reg_def example_cursor_fields example_uap_def)

end
